theory Spec2Isabelle
  imports Main "HOL-Library.Code_Target_Nat"
begin

section \<open>Application logger: a shallow embedding of \<open>src/index.js\<close>\<close>

text \<open>
  The module wraps a logging engine (winston). What the module itself computes is:
  the table of severity levels, the timestamp, the text of a log line
  (\<open>createLogString\<close>), the route of a logger (\<open>_generateRoute\<close>), the options of
  the sinks it asks the engine for (\<open>_createWinstonLogger\<close>), and the methods of the
  class \<open>AppLogger\<close>. JavaScript strings are modelled as \<open>string\<close>, the clock
  (\<open>Date.now()\<close>) as an explicit argument, a thrown exception as the left summand
  of a sum type.
\<close>

subsection \<open>Strings and numbers of the runtime\<close>

definition digit_char :: "nat \<Rightarrow> char" where
  "digit_char d = char_of (48 + d)"

text \<open>Decimal text of a natural number, as \<open>String(n)\<close> gives it.\<close>

fun show_nat :: "nat \<Rightarrow> string" where
  "show_nat n = (if n < 10 then [digit_char n] else show_nat (n div 10) @ [digit_char (n mod 10)])"

declare show_nat.simps [simp del]

text \<open>\<open>String.prototype.padStart(n, fill)\<close> with a one-character fill: a string that
  is already \<open>n\<close> long or longer is returned as it is.\<close>

definition padStart :: "nat \<Rightarrow> char \<Rightarrow> string \<Rightarrow> string" where
  "padStart n fill s = replicate (n - length s) fill @ s"

text \<open>\<open>String.prototype.toUpperCase\<close> on ASCII text (the level names are ASCII).\<close>

definition upper_char :: "char \<Rightarrow> char" where
  "upper_char c = (let k = (of_char c :: nat) in if 97 \<le> k \<and> k \<le> 122 then char_of (k - 32) else c)"

definition toUpperCase :: "string \<Rightarrow> string" where
  "toUpperCase s = map upper_char s"

text \<open>\<open>String.prototype.split(sep)\<close> for a one-character separator: the result always
  has at least one element.\<close>

fun split :: "char \<Rightarrow> string \<Rightarrow> string list" where
  "split sep [] = [[]]"
| "split sep (c # cs) =
     (if c = sep then [] # split sep cs
      else (case split sep cs of w # ws \<Rightarrow> (c # w) # ws | [] \<Rightarrow> [[c]]))"

text \<open>An array destructuring \<open>const [a, b, c] = xs\<close> binds a missing position to
  \<open>undefined\<close>; a template literal renders \<open>undefined\<close> as the text \<open>undefined\<close>.\<close>

definition element :: "'a list \<Rightarrow> nat \<Rightarrow> 'a option" where
  "element xs i = (if i < length xs then Some (xs ! i) else None)"

definition template :: "string option \<Rightarrow> string" where
  "template v = (case v of None \<Rightarrow> ''undefined'' | Some s \<Rightarrow> s)"

subsection \<open>The clock and the timestamp\<close>

text \<open>The instant read from the clock, as the fields of local time that
  \<open>toLocaleString\<close> renders.\<close>

record instant =
  year :: nat
  month :: nat
  day :: nat
  hour :: nat
  minute :: nat
  second :: nat

record date_options =
  opt_month :: string
  opt_day :: string
  opt_year :: string
  opt_hour :: string
  opt_minute :: string
  opt_second :: string

definition DATE_OPTIONS :: date_options where
  "DATE_OPTIONS = \<lparr>opt_month = ''2-digit'', opt_day = ''2-digit'', opt_year = ''numeric'',
     opt_hour = ''2-digit'', opt_minute = ''2-digit'', opt_second = ''2-digit''\<rparr>"

text \<open>One date or time field under its option: \<open>2-digit\<close> gives the last two digits,
  zero-padded, \<open>numeric\<close> the number.\<close>

definition field :: "string \<Rightarrow> nat \<Rightarrow> string" where
  "field opt n = (if opt = ''2-digit'' then padStart 2 (CHR ''0'') (show_nat (n mod 100)) else show_nat n)"

text \<open>
  \<open>Date.prototype.toLocaleString(locale, options)\<close> belongs to the runtime. Its output
  is written out for the two locales the repository uses (\<open>de-DE\<close>, the default, and
  \<open>en-US\<close>, in the README and the test): day.month.year and a 24-hour time for
  \<open>de-DE\<close>, month/day/year and a 12-hour time with AM or PM for \<open>en-US\<close>. For every
  other locale the text is whatever the host renders: the argument \<open>host\<close>.
\<close>

type_synonym host_intl = "string \<Rightarrow> date_options \<Rightarrow> instant \<Rightarrow> string"

definition hour12 :: "nat \<Rightarrow> nat" where
  "hour12 h = (if h mod 12 = 0 then 12 else h mod 12)"

definition toLocaleString :: "host_intl \<Rightarrow> string \<Rightarrow> date_options \<Rightarrow> instant \<Rightarrow> string" where
  "toLocaleString host locale opts t =
     (if locale = ''de-DE'' then
        field (opt_day opts) (day t) @ ''.'' @ field (opt_month opts) (month t) @ ''.''
          @ field (opt_year opts) (year t) @ '', ''
          @ field (opt_hour opts) (hour t) @ '':'' @ field (opt_minute opts) (minute t) @ '':''
          @ field (opt_second opts) (second t)
      else if locale = ''en-US'' then
        field (opt_month opts) (month t) @ ''/'' @ field (opt_day opts) (day t) @ ''/''
          @ field (opt_year opts) (year t) @ '', ''
          @ field (opt_hour opts) (hour12 (hour t)) @ '':'' @ field (opt_minute opts) (minute t)
          @ '':'' @ field (opt_second opts) (second t)
          @ (if hour t < 12 then '' AM'' else '' PM'')
      else host locale opts t)"

text \<open>\<open>formatDate(locale = 'de-DE')\<close>: an omitted argument is \<open>None\<close>.\<close>

definition formatDate :: "host_intl \<Rightarrow> instant \<Rightarrow> string option \<Rightarrow> string" where
  "formatDate host now locale =
     toLocaleString host (case locale of None \<Rightarrow> ''de-DE'' | Some l \<Rightarrow> l) DATE_OPTIONS now"

subsection \<open>Severity levels\<close>

record logging_levels =
  levels :: "(string \<times> nat) list"
  colors :: "(string \<times> string) list"

definition LOGGING_LEVELS :: logging_levels where
  "LOGGING_LEVELS = \<lparr>
     levels = [(''exception'', 0), (''error'', 1), (''warn'', 2), (''info'', 3),
               (''http'', 4), (''trace'', 5), (''debug'', 6)],
     colors = [(''exception'', ''red bold''), (''error'', ''red''), (''warn'', ''yellow''),
               (''info'', ''green''), (''http'', ''magenta''), (''trace'', ''cyan''),
               (''debug'', ''blue'')]\<rparr>"

text \<open>\<open>LOGGING_LEVELS.levels[name]\<close>: \<open>None\<close> is \<open>undefined\<close>.\<close>

definition rank :: "string \<Rightarrow> nat option" where
  "rank name = map_of (levels LOGGING_LEVELS) name"

definition level_names :: "string list" where
  "level_names = map fst (levels LOGGING_LEVELS)"

subsection \<open>Payloads\<close>

text \<open>
  A number of the runtime is \<open>NaN\<close>, an infinity (\<open>True\<close> for the negative one), or a
  finite value, given here in decimal: \<open>Finite neg s e\<close> is \<open>s\<close> times ten to the
  power \<open>e\<close>, negated when \<open>neg\<close> holds, with \<open>s\<close> the digits the runtime prints for
  the value (the shortest decimal that reads back as the same double). So 25.5 is
  \<open>Finite False 255 (-1)\<close> and ten to the power 21 is \<open>Finite False 1 21\<close>.
\<close>

datatype js_number = NaN | Infinity bool | Finite bool nat int


text \<open>Trailing zeros of the digits move into the exponent.\<close>

fun shortest :: "nat \<Rightarrow> int \<Rightarrow> nat \<times> int" where
  "shortest s e =
     (if s = 0 then (0, 0)
      else if s mod 10 = 0 then shortest (s div 10) (e + 1)
      else (s, e))"

declare shortest.simps [simp del]

text \<open>
  \<open>Number::toString\<close> of the language standard, for a finite value that is not zero:
  with \<open>k\<close> digits \<open>ds\<close> and the decimal point \<open>n\<close> places after the first digit's
  left, the digits are padded with zeros when \<open>k \<le> n \<le> 21\<close>, split by a point when
  \<open>0 < n \<le> 21\<close>, preceded by \<open>0.\<close> and zeros when \<open>-6 < n \<le> 0\<close>, and written
  with an exponent otherwise.
\<close>

definition positive_text :: "nat \<Rightarrow> int \<Rightarrow> string" where
  "positive_text s0 e0 =
     (let (s, e) = shortest s0 e0;
          ds = show_nat s;
          k = int (length ds);
          n = k + e
      in if k \<le> n \<and> n \<le> 21 then ds @ replicate (nat (n - k)) (CHR ''0'')
         else if 0 < n \<and> n \<le> 21 then take (nat n) ds @ ''.'' @ drop (nat n) ds
         else if - 6 < n \<and> n \<le> 0 then ''0.'' @ replicate (nat (- n)) (CHR ''0'') @ ds
         else (if k = 1 then ds else take 1 ds @ ''.'' @ drop 1 ds)
                @ ''e'' @ (if n - 1 < 0 then ''-'' else ''+'') @ show_nat (nat \<bar>n - 1\<bar>))"

fun number_text :: "js_number \<Rightarrow> string" where
  "number_text NaN = ''NaN''"
| "number_text (Infinity neg) = (if neg then ''-Infinity'' else ''Infinity'')"
| "number_text (Finite neg s e) =
     (if s = 0 then ''0''
      else (if neg then ''-'' else []) @ positive_text s e)"

text \<open>
  The payload of a log call is any JavaScript value. The model covers \<open>undefined\<close>,
  \<open>null\<close>, booleans, numbers, strings, arrays, plain objects (properties in the order
  the runtime enumerates them), functions, and an object that reaches itself through
  its properties (\<open>JCyclic\<close>).
\<close>

datatype js_value =
    JUndefined
  | JNull
  | JBool bool
  | JNum js_number
  | JStr string
  | JArr "js_value list"
  | JObj "(string \<times> js_value) list"
  | JFunction
  | JCyclic

text \<open>The test of \<open>if (v)\<close>.\<close>

fun truthy :: "js_value \<Rightarrow> bool" where
  "truthy JUndefined = False"
| "truthy JNull = False"
| "truthy (JBool b) = b"
| "truthy (JNum NaN) = False"
| "truthy (JNum (Infinity neg)) = True"
| "truthy (JNum (Finite neg s e)) = (s \<noteq> 0)"
| "truthy (JStr s) = (s \<noteq> [])"
| "truthy (JArr xs) = True"
| "truthy (JObj ps) = True"
| "truthy JFunction = True"
| "truthy JCyclic = True"

datatype js_error = TypeError string

text \<open>\<open>JSON.stringify\<close>: the quoted form of a string.\<close>

definition hex_digit :: "nat \<Rightarrow> char" where
  "hex_digit d = (if d < 10 then char_of (48 + d) else char_of (87 + d))"

definition escape_char :: "char \<Rightarrow> string" where
  "escape_char c =
     (let k = (of_char c :: nat) in
      if k = 34 then [CHR 0x5C, CHR 0x22]
      else if k = 92 then [CHR 0x5C, CHR 0x5C]
      else if k = 8 then [CHR 0x5C, CHR ''b'']
      else if k = 12 then [CHR 0x5C, CHR ''f'']
      else if k = 10 then [CHR 0x5C, CHR ''n'']
      else if k = 13 then [CHR 0x5C, CHR ''r'']
      else if k = 9 then [CHR 0x5C, CHR ''t'']
      else if k < 32 then [CHR 0x5C, CHR ''u'', CHR ''0'', CHR ''0'', hex_digit (k div 16), hex_digit (k mod 16)]
      else [c])"

definition quote :: "string \<Rightarrow> string" where
  "quote s = CHR 0x22 # concat (map escape_char s) @ [CHR 0x22]"

fun join :: "string \<Rightarrow> string list \<Rightarrow> string" where
  "join sep [] = []"
| "join sep [x] = x"
| "join sep (x # y # ys) = x @ sep @ join sep (y # ys)"

text \<open>A value that \<open>JSON.stringify\<close> cannot walk: it throws.\<close>

fun cyclic :: "js_value \<Rightarrow> bool" where
  "cyclic JCyclic = True"
| "cyclic (JArr xs) = list_ex cyclic xs"
| "cyclic (JObj ps) = list_ex (\<lambda>p. cyclic (snd p)) ps"
| "cyclic v = False"

text \<open>The text of a value; \<open>None\<close> is the result \<open>undefined\<close> (for \<open>undefined\<close> and
  for a function). In an array such an element is written \<open>null\<close>, in an object the
  property is left out.\<close>

fun serialize :: "js_value \<Rightarrow> string option" where
  "serialize JUndefined = None"
| "serialize JFunction = None"
| "serialize JCyclic = None"
| "serialize JNull = Some ''null''"
| "serialize (JBool b) = Some (if b then ''true'' else ''false'')"
| "serialize (JNum NaN) = Some ''null''"
| "serialize (JNum (Infinity neg)) = Some ''null''"
| "serialize (JNum (Finite neg s e)) = Some (number_text (Finite neg s e))"
| "serialize (JStr s) = Some (quote s)"
| "serialize (JArr xs) =
     Some (''['' @ join '','' (map (\<lambda>x. case serialize x of None \<Rightarrow> ''null'' | Some s \<Rightarrow> s) xs) @ '']'')"
| "serialize (JObj ps) =
     Some (''{'' @ join '','' (concat (map (\<lambda>p. case serialize (snd p) of None \<Rightarrow> []
                                                | Some s \<Rightarrow> [quote (fst p) @ '':'' @ s]) ps)) @ ''}'')"

definition JSON_stringify :: "js_value \<Rightarrow> js_error + string option" where
  "JSON_stringify v =
     (if cyclic v then Inl (TypeError ''Converting circular structure to JSON'')
      else Inr (serialize v))"

subsection \<open>The text of a log line\<close>

text \<open>The object the engine hands to a format: \<open>obj\<close> is \<open>JUndefined\<close> when the call
  had no metadata.\<close>

record winston_info =
  level :: string
  message :: string
  obj :: js_value

text \<open>\<open>createLogString\<close> reads the clock itself and calls \<open>formatDate()\<close> with no
  argument.\<close>

definition createLogString :: "host_intl \<Rightarrow> instant \<Rightarrow> winston_info \<Rightarrow> js_error + string" where
  "createLogString host now i =
     (let logLevel = padStart 9 (CHR '' '') (toUpperCase (level i));
          timestamp = formatDate host now None;
          msg = timestamp @ '' | '' @ logLevel @ '' | '' @ message i
      in if truthy (obj i)
         then (case JSON_stringify (obj i) of
                 Inl e \<Rightarrow> Inl e
               | Inr s \<Rightarrow> Inr (msg @ '' | '' @ template s))
         else Inr (msg @ '' |''))"

subsection \<open>Configuration\<close>

record LoggerConfig =
  logTracelevel :: string
  consoleOutput :: string
  logPath :: string
  dateLocale :: string
  fileRotation :: bool
  maxFileSize :: string
  maxFiles :: string

text \<open>\<open>Partial<LoggerConfig>\<close>: a field that is not given is \<open>None\<close>.\<close>

record PartialConfig =
  p_logTracelevel :: "string option"
  p_consoleOutput :: "string option"
  p_logPath :: "string option"
  p_dateLocale :: "string option"
  p_fileRotation :: "bool option"
  p_maxFileSize :: "string option"
  p_maxFiles :: "string option"

definition DEFAULT_CONFIG :: LoggerConfig where
  "DEFAULT_CONFIG = \<lparr>logTracelevel = ''info'', consoleOutput = ''on'', logPath = ''./logs/'',
     dateLocale = ''de-DE'', fileRotation = False, maxFileSize = ''20m'', maxFiles = ''14d''\<rparr>"

text \<open>The default argument \<open>config = {}\<close> of the constructor.\<close>

definition no_config :: PartialConfig where
  "no_config = \<lparr>p_logTracelevel = None, p_consoleOutput = None, p_logPath = None,
     p_dateLocale = None, p_fileRotation = None, p_maxFileSize = None, p_maxFiles = None\<rparr>"

text \<open>The object spread \<open>{ ...c, ...p }\<close>: a field of \<open>p\<close> wins where it is given.\<close>

definition spread :: "LoggerConfig \<Rightarrow> PartialConfig \<Rightarrow> LoggerConfig" where
  "spread c p = \<lparr>
     logTracelevel = (case p_logTracelevel p of None \<Rightarrow> logTracelevel c | Some v \<Rightarrow> v),
     consoleOutput = (case p_consoleOutput p of None \<Rightarrow> consoleOutput c | Some v \<Rightarrow> v),
     logPath = (case p_logPath p of None \<Rightarrow> logPath c | Some v \<Rightarrow> v),
     dateLocale = (case p_dateLocale p of None \<Rightarrow> dateLocale c | Some v \<Rightarrow> v),
     fileRotation = (case p_fileRotation p of None \<Rightarrow> fileRotation c | Some v \<Rightarrow> v),
     maxFileSize = (case p_maxFileSize p of None \<Rightarrow> maxFileSize c | Some v \<Rightarrow> v),
     maxFiles = (case p_maxFiles p of None \<Rightarrow> maxFiles c | Some v \<Rightarrow> v)\<rparr>"

subsection \<open>The route\<close>

text \<open>\<open>_generateRoute\<close>: the date string is cut at the first comma, the date part at
  the dots, and the pieces are bound as day, month, year.\<close>

definition generateRoute :: "host_intl \<Rightarrow> instant \<Rightarrow> LoggerConfig \<Rightarrow> string \<Rightarrow> string" where
  "generateRoute host now cfg route =
     (let dateString = formatDate host now (Some (dateLocale cfg));
          datePart = hd (split (CHR '','') dateString);
          pieces = split (CHR ''.'') datePart;
          dd = element pieces 0;
          mm = element pieces 1;
          yyyy = element pieces 2;
          formattedDate = template yyyy @ template mm @ template dd
      in route @ ''-'' @ formattedDate)"

subsection \<open>The engine\<close>

text \<open>
  The sinks the module asks the engine for. A file sink is
  \<open>filename: path.join(logPath, name)\<close>, kept here as the two arguments of
  \<open>path.join\<close>; every sink has \<open>format: printf(createLogString)\<close>, the console
  combined with \<open>colorize({ all: true })\<close>.
\<close>

datatype transport =
    DailyRotateFile string string string string string
      \<comment> \<open>directory, file name with \<open>%DATE%\<close>, datePattern, maxSize, maxFiles\<close>
  | File string string
      \<comment> \<open>directory, file name\<close>
  | Console

record winston_logger =
  w_levels :: "(string \<times> nat) list"
  w_level :: string
  w_transports :: "transport list"

definition createWinstonLogger :: "LoggerConfig \<Rightarrow> string \<Rightarrow> winston_logger" where
  "createWinstonLogger cfg route =
     (let file_transport =
            (if fileRotation cfg
             then DailyRotateFile (logPath cfg) (route @ ''-%DATE%.log'') ''YYYY-MM-DD''
                    (maxFileSize cfg) (maxFiles cfg)
             else File (logPath cfg) (route @ ''.log''));
          transports =
            (if consoleOutput cfg = ''on'' then [file_transport, Console] else [file_transport])
      in \<lparr>w_levels = levels LOGGING_LEVELS, w_level = logTracelevel cfg,
          w_transports = transports\<rparr>)"

text \<open>
  What the engine does with these options is the engine's, not the module's. It is
  modelled as far as the module relies on it:
  \<^item> a sink writes a record when the threshold is empty or
    \<open>levels[threshold] >= levels[level]\<close> (a comparison with \<open>undefined\<close> is false);
  \<^item> the logger's own format runs first, on every record, and an exception thrown by
    it leaves the call;
  \<^item> the metadata object of a call is merged into the record, unless the message holds
    a format token (\<open>%\<close> followed by one of \<open>s c d j i f o O %\<close>): such a message is
    left to the engine's own interpolation and the metadata is not merged;
  \<^item> the rotating sink replaces \<open>%DATE%\<close> in its file name by the day of the write in
    its date pattern;
  \<^item> \<open>close()\<close> detaches every sink from the logger.
\<close>

definition enabled :: "(string \<times> nat) list \<Rightarrow> string \<Rightarrow> string \<Rightarrow> bool" where
  "enabled lv threshold l =
     (threshold = [] \<or>
      (case map_of lv threshold of
         None \<Rightarrow> False
       | Some t \<Rightarrow> (case map_of lv l of None \<Rightarrow> False | Some k \<Rightarrow> k \<le> t)))"

text \<open>The day in the pattern \<open>YYYY-MM-DD\<close>, the one pattern the module passes; another
  pattern is left as it is.\<close>

definition datePattern_text :: "string \<Rightarrow> instant \<Rightarrow> string" where
  "datePattern_text pat t =
     (if pat = ''YYYY-MM-DD''
      then padStart 4 (CHR ''0'') (show_nat (year t)) @ ''-'' @ padStart 2 (CHR ''0'') (show_nat (month t))
             @ ''-'' @ padStart 2 (CHR ''0'') (show_nat (day t))
      else pat)"

text \<open>Every occurrence of \<open>pat\<close> in a string replaced by \<open>rep\<close>; \<open>k\<close> counts the
  characters of a match still to skip.\<close>

fun replace_from :: "string \<Rightarrow> string \<Rightarrow> nat \<Rightarrow> string \<Rightarrow> string" where
  "replace_from pat rep k [] = []"
| "replace_from pat rep k (c # cs) =
     (if 0 < k then replace_from pat rep (k - 1) cs
      else if pat \<noteq> [] \<and> take (length pat) (c # cs) = pat
           then rep @ replace_from pat rep (length pat - 1) cs
      else c # replace_from pat rep 0 cs)"

definition rotated_filename :: "string \<Rightarrow> string \<Rightarrow> instant \<Rightarrow> string" where
  "rotated_filename name pat t = replace_from ''%DATE%'' (datePattern_text pat t) 0 name"

text \<open>One line arriving at a sink: in a file (directory, file name, text), or on the
  console (the colour of the level, if it has one, and the text).\<close>

datatype sink_write =
    FileWrite string string string
  | ConsoleWrite "string option" string

fun write_to :: "instant \<Rightarrow> transport \<Rightarrow> string \<Rightarrow> string \<Rightarrow> sink_write" where
  "write_to now (DailyRotateFile dir name pat size_limit keep) lvl line =
     FileWrite dir (rotated_filename name pat now) line"
| "write_to now (File dir name) lvl line = FileWrite dir name line"
| "write_to now Console lvl line = ConsoleWrite (map_of (colors LOGGING_LEVELS) lvl) line"

fun deliver :: "host_intl \<Rightarrow> instant \<Rightarrow> winston_logger \<Rightarrow> winston_info \<Rightarrow> transport list
                  \<Rightarrow> js_error + sink_write list" where
  "deliver host now w i [] = Inr []"
| "deliver host now w i (tr # trs) =
     (if enabled (w_levels w) (w_level w) (level i)
      then (case createLogString host now i of
              Inl e \<Rightarrow> Inl e
            | Inr line \<Rightarrow>
                (case deliver host now w i trs of
                   Inl e \<Rightarrow> Inl e
                 | Inr ws \<Rightarrow> Inr (write_to now tr (level i) line # ws)))
      else deliver host now w i trs)"

fun has_format_token :: "string \<Rightarrow> bool" where
  "has_format_token (a # b # cs) =
     ((a = CHR ''%'' \<and> b \<in> set ''scdjifoO%'') \<or> has_format_token (b # cs))"
| "has_format_token cs = False"

text \<open>\<open>logger.log(level, message)\<close> and \<open>logger.log(level, message, { obj })\<close>;
  \<open>meta\<close> is the \<open>obj\<close> of the metadata object.\<close>

definition winston_log :: "host_intl \<Rightarrow> instant \<Rightarrow> winston_logger \<Rightarrow> string \<Rightarrow> string
                             \<Rightarrow> js_value option \<Rightarrow> js_error + sink_write list" where
  "winston_log host now w lvl msg meta =
     (let i = \<lparr>level = lvl, message = msg,
               obj = (case meta of
                        None \<Rightarrow> JUndefined
                      | Some v \<Rightarrow> if has_format_token msg then JUndefined else v)\<rparr>
      in case createLogString host now i of
           Inl e \<Rightarrow> Inl e
         | Inr line \<Rightarrow> deliver host now w i (w_transports w))"

definition winston_close :: "winston_logger \<Rightarrow> winston_logger" where
  "winston_close w = w\<lparr>w_transports := []\<rparr>"

subsection \<open>The class \<open>AppLogger\<close>\<close>

record AppLogger =
  config :: LoggerConfig
  route :: string
  logger :: winston_logger

text \<open>The constructor. (It also creates the log directory when it is missing; the
  file system is not part of the model.)\<close>

definition new_AppLogger :: "host_intl \<Rightarrow> instant \<Rightarrow> string \<Rightarrow> PartialConfig \<Rightarrow> AppLogger" where
  "new_AppLogger host now route_arg config_arg =
     (let cfg = spread DEFAULT_CONFIG config_arg;
          r = generateRoute host now cfg route_arg
      in \<lparr>config = cfg, route = r, logger = createWinstonLogger cfg r\<rparr>)"

text \<open>\<open>genLog(level, message, obj = null)\<close>: the default replaces an omitted or
  \<open>undefined\<close> argument. The result is the outcome of the promise: rejected with the
  exception, or resolved after these writes.\<close>

definition genLog :: "host_intl \<Rightarrow> instant \<Rightarrow> AppLogger \<Rightarrow> string \<Rightarrow> string \<Rightarrow> js_value
                        \<Rightarrow> js_error + sink_write list" where
  "genLog host now this lvl msg obj_arg =
     (let ob = (if obj_arg = JUndefined then JNull else obj_arg)
      in if truthy ob
         then winston_log host now (logger this) lvl msg (Some ob)
         else winston_log host now (logger this) lvl msg None)"

definition info :: "host_intl \<Rightarrow> instant \<Rightarrow> AppLogger \<Rightarrow> string \<Rightarrow> js_value \<Rightarrow> js_error + sink_write list" where
  "info host now this msg ob = genLog host now this ''info'' msg ob"





definition warn :: "host_intl \<Rightarrow> instant \<Rightarrow> AppLogger \<Rightarrow> string \<Rightarrow> js_value \<Rightarrow> js_error + sink_write list" where
  "warn host now this msg ob = genLog host now this ''warn'' msg ob"


text \<open>\<open>close()\<close> closes the engine's logger; no field of the \<open>AppLogger\<close> is assigned.\<close>

definition close :: "AppLogger \<Rightarrow> AppLogger" where
  "close this = this\<lparr>logger := winston_close (logger this)\<rparr>"

definition getConfig :: "AppLogger \<Rightarrow> LoggerConfig" where
  "getConfig this = config this"

definition updateConfig :: "AppLogger \<Rightarrow> PartialConfig \<Rightarrow> AppLogger" where
  "updateConfig this newConfig =
     (let cfg = spread (config this) newConfig
      in this\<lparr>config := cfg, logger := createWinstonLogger cfg (route this)\<rparr>)"

text \<open>A logger whose sinks are the ones built from its current configuration and
  route: so it is after the constructor and after \<open>updateConfig\<close>.\<close>

definition ready :: "AppLogger \<Rightarrow> bool" where
  "ready this = (logger this = createWinstonLogger (config this) (route this))"

text \<open>The record the formats see for a call of \<open>genLog\<close>: the payload is passed on only
  when it is truthy, and merged only when the message holds no format token.\<close>

definition record_of :: "string \<Rightarrow> string \<Rightarrow> js_value \<Rightarrow> winston_info" where
  "record_of lvl msg ob =
     \<lparr>level = lvl, message = msg,
      obj = (if truthy ob \<and> \<not> has_format_token msg then ob else JUndefined)\<rparr>"

subsection \<open>A logger over time\<close>

text \<open>The calls made on one logger, each at the instant the clock shows then.\<close>

datatype call =
    GenLog string string js_value
  | UpdateConfig PartialConfig
  | Close
  | GetConfig

fun perform :: "host_intl \<Rightarrow> AppLogger \<Rightarrow> instant \<times> call \<Rightarrow> AppLogger" where
  "perform host this (now, GenLog lvl msg ob) = this"
| "perform host this (now, UpdateConfig newConfig) = updateConfig this newConfig"
| "perform host this (now, Close) = close this"
| "perform host this (now, GetConfig) = this"

definition run :: "host_intl \<Rightarrow> AppLogger \<Rightarrow> (instant \<times> call) list \<Rightarrow> AppLogger" where
  "run host this calls = foldl (perform host) this calls"

subsection \<open>Configuration objects in the store\<close>

text \<open>
  \<open>this.config\<close> is a reference to an object, and \<open>getConfig()\<close> returns
  \<open>{ ...this.config }\<close>: a new object with the same fields. Objects live in a store,
  at addresses; \<open>fresh\<close> is the next address to hand out.
\<close>

type_synonym addr = nat

record store =
  objects :: "addr \<Rightarrow> LoggerConfig option"
  fresh :: addr

definition new_object :: "store \<Rightarrow> LoggerConfig \<Rightarrow> addr \<times> store" where
  "new_object st c = (fresh st, st\<lparr>objects := (objects st)(fresh st \<mapsto> c), fresh := Suc (fresh st)\<rparr>)"

text \<open>\<open>getConfig()\<close> on a logger whose \<open>this.config\<close> is the address \<open>this_config\<close>.\<close>

definition getConfig_ref :: "store \<Rightarrow> addr \<Rightarrow> (addr \<times> store) option" where
  "getConfig_ref st this_config =
     (case objects st this_config of
        None \<Rightarrow> None
      | Some c \<Rightarrow> Some (new_object st c))"

text \<open>An assignment to fields of the object at an address, as a caller may do to a
  snapshot it holds.\<close>

definition assign :: "store \<Rightarrow> addr \<Rightarrow> (LoggerConfig \<Rightarrow> LoggerConfig) \<Rightarrow> store" where
  "assign st a f =
     (case objects st a of
        None \<Rightarrow> st
      | Some c \<Rightarrow> st\<lparr>objects := (objects st)(a \<mapsto> f c)\<rparr>)"

subsection \<open>The file name check of \<open>test/simple-filename-test.js\<close>\<close>

definition is_digit :: "char \<Rightarrow> bool" where
  "is_digit c = (48 \<le> (of_char c :: nat) \<and> (of_char c :: nat) \<le> 57)"

text \<open>The test's pattern for a file name with two dates: a name that ends in a
  hyphen, eight digits, a hyphen, four digits, a hyphen, two digits, a hyphen, two
  digits and \<open>.log\<close>.\<close>

definition doubleDate :: "string \<Rightarrow> bool" where
  "doubleDate file =
     (24 \<le> length file \<and>
      (let s = drop (length file - 24) file
       in take 1 s = ''-'' \<and> list_all is_digit (take 8 (drop 1 s))
          \<and> take 1 (drop 9 s) = ''-'' \<and> list_all is_digit (take 4 (drop 10 s))
          \<and> take 1 (drop 14 s) = ''-'' \<and> list_all is_digit (take 2 (drop 15 s))
          \<and> take 1 (drop 17 s) = ''-'' \<and> list_all is_digit (take 2 (drop 18 s))
          \<and> drop 20 s = ''.log''))"

subsection \<open>Inputs used in the examples\<close>

text \<open>A host that renders nothing for the locales not written out above.\<close>

definition plain_host :: host_intl where
  "plain_host locale opts t = []"

definition late_evening :: instant where
  "late_evening = \<lparr>year = 2025, month = 5, day = 26, hour = 23, minute = 59, second = 59\<rparr>"

definition early_morning :: instant where
  "early_morning = \<lparr>year = 2025, month = 5, day = 26, hour = 0, minute = 0, second = 1\<rparr>"

definition afternoon :: instant where
  "afternoon = \<lparr>year = 2025, month = 5, day = 26, hour = 14, minute = 30, second = 15\<rparr>"

definition next_day :: instant where
  "next_day = \<lparr>year = 2025, month = 5, day = 27, hour = 9, minute = 0, second = 0\<rparr>"

text \<open>A logger with the default configuration, one lowered to the threshold \<open>error\<close>
  afterwards (as \<open>test/test.js\<close> does), a record with a payload, and a store that holds
  one configuration object at address 0.\<close>

definition service :: AppLogger where
  "service = new_AppLogger plain_host late_evening ''svc'' no_config"

definition error_only :: AppLogger where
  "error_only = updateConfig (new_AppLogger plain_host late_evening ''test-config'' no_config)
                  (no_config\<lparr>p_logTracelevel := Some ''error''\<rparr>)"


definition one_object :: store where
  "one_object = \<lparr>objects = (\<lambda>a. if a = 0 then Some DEFAULT_CONFIG else None), fresh = 1\<rparr>"

section \<open>Properties\<close>

subsection \<open>Auxiliary facts\<close>

lemma split_not_Nil: "split sep s \<noteq> []"
  by (induction s) (auto split: list.splits)

lemma cyclic_truthy: "cyclic v \<Longrightarrow> truthy v"
  by (cases v) simp_all

lemma level_names_eq:
  "level_names = [''exception'', ''error'', ''warn'', ''info'', ''http'', ''trace'', ''debug'']"
  by (simp add: level_names_def LOGGING_LEVELS_def)

lemma rank_table:
  "map rank level_names = [Some 0, Some 1, Some 2, Some 3, Some 4, Some 5, Some 6]"
  by (simp add: level_names_eq rank_def LOGGING_LEVELS_def)

lemma rank_known: "l \<in> set level_names \<Longrightarrow> \<exists>k. rank l = Some k"
  by (auto simp add: level_names_eq rank_def LOGGING_LEVELS_def)

lemma enabled_rank:
  assumes "rank l = Some k" and "rank t = Some n"
  shows "enabled (levels LOGGING_LEVELS) t l \<longleftrightarrow> k \<le> n"
proof -
  have "t \<noteq> []" using assms(2) by (auto simp add: rank_def LOGGING_LEVELS_def)
  then show ?thesis using assms by (simp add: enabled_def rank_def)
qed

lemma deliver_Inr:
  assumes "createLogString host now i = Inr line"
  shows "deliver host now w i trs =
           Inr (if enabled (w_levels w) (w_level w) (level i)
                then map (\<lambda>tr. write_to now tr (level i) line) trs else [])"
  using assms by (induction trs) simp_all

lemma createLogString_no_payload:
  "\<not> truthy (obj i) \<Longrightarrow>
   createLogString host now i =
     Inr (formatDate host now None @ '' | '' @ padStart 9 (CHR '' '') (toUpperCase (level i))
            @ '' | '' @ message i @ '' |'')"
  by (simp add: createLogString_def Let_def)

lemma createLogString_payload:
  "truthy (obj i) \<Longrightarrow> JSON_stringify (obj i) = Inr s \<Longrightarrow>
   createLogString host now i =
     Inr (formatDate host now None @ '' | '' @ padStart 9 (CHR '' '') (toUpperCase (level i))
            @ '' | '' @ message i @ '' | '' @ template s)"
  by (simp add: createLogString_def Let_def)

lemma createLogString_throws:
  "cyclic (obj i) \<Longrightarrow>
   createLogString host now i = Inl (TypeError ''Converting circular structure to JSON'')"
  by (simp add: createLogString_def JSON_stringify_def cyclic_truthy Let_def)

lemma createLogString_total:
  "\<not> cyclic (obj i) \<Longrightarrow> \<exists>line. createLogString host now i = Inr line"
  by (simp add: createLogString_def JSON_stringify_def Let_def)

lemma transports_not_Nil: "w_transports (createWinstonLogger cfg r) \<noteq> []"
  by (simp add: createWinstonLogger_def Let_def)

lemma genLog_meta:
  "genLog host now this lvl msg ob =
     winston_log host now (logger this) lvl msg (if truthy ob then Some ob else None)"
  by (cases ob) (simp_all add: genLog_def)

lemma winston_log_record:
  "winston_log host now w lvl msg (if truthy ob then Some ob else None) =
     (case createLogString host now (record_of lvl msg ob) of
        Inl e \<Rightarrow> Inl e
      | Inr line \<Rightarrow> deliver host now w (record_of lvl msg ob) (w_transports w))"
  by (simp add: winston_log_def record_of_def Let_def cong: sum.case_cong)

lemma genLog_winston:
  "genLog host now this lvl msg ob =
     (case createLogString host now (record_of lvl msg ob) of
        Inl e \<Rightarrow> Inl e
      | Inr line \<Rightarrow> deliver host now (logger this) (record_of lvl msg ob) (w_transports (logger this)))"
  by (simp only: genLog_meta winston_log_record)

lemma ready_updateConfig: "ready (updateConfig this p)"
  by (simp add: ready_def updateConfig_def Let_def)

lemma ready_new: "ready (new_AppLogger host now r p)"
  by (simp add: ready_def new_AppLogger_def Let_def)

lemma route_perform: "route (perform host this c) = route this"
proof (cases c)
  case (Pair now op)
  then show ?thesis
    by (cases op) (simp_all add: updateConfig_def close_def Let_def)
qed

lemma route_foldl: "route (foldl (perform host) this calls) = route this"
  by (induction calls arbitrary: this) (simp_all add: route_perform)

text \<open>The seven labels, as \<open>createLogString\<close> pads them.\<close>

lemma labels:
  "map (\<lambda>l. padStart 9 (CHR '' '') (toUpperCase l)) level_names =
     [''EXCEPTION'', ''    ERROR'', ''     WARN'', ''     INFO'', ''     HTTP'', ''    TRACE'', ''    DEBUG'']"
  by code_simp

text \<open>For the default locale the route is the name, a hyphen, and year, month and day
  without separators; the time of day does not enter.\<close>

lemma split_no_sep: "sep \<notin> set a \<Longrightarrow> split sep a = [a]"
  by (induction a) auto

lemma split_at_sep: "sep \<notin> set a \<Longrightarrow> split sep (a @ sep # rest) = a # split sep rest"
  by (induction a) (auto simp add: split_no_sep)

lemma digit_char_is_digit: "d < 10 \<Longrightarrow> is_digit (digit_char d)"
  by (simp add: is_digit_def digit_char_def)

lemma show_nat_digits: "list_all is_digit (show_nat n)"
proof (induction n rule: show_nat.induct)
  case (1 n)
  show ?case
  proof (cases "n < 10")
    case True
    then show ?thesis by (subst show_nat.simps) (simp add: digit_char_is_digit)
  next
    case False
    then show ?thesis using 1 by (subst show_nat.simps) (simp add: digit_char_is_digit)
  qed
qed

lemma is_digit_zero: "is_digit (CHR ''0'')"
  by (simp add: is_digit_def)

lemma field_digits: "list_all is_digit (field opt n)"
  using show_nat_digits [of n] show_nat_digits [of "n mod 100"]
  by (auto simp add: field_def padStart_def is_digit_zero list_all_iff)

lemma not_digit: "\<not> is_digit (CHR ''.'')" "\<not> is_digit (CHR '','')"
  by (simp_all add: is_digit_def)

lemma digits_no_sep: "list_all is_digit s \<Longrightarrow> CHR ''.'' \<notin> set s \<and> CHR '','' \<notin> set s"
  using not_digit by (auto simp add: list_all_iff)

lemma generateRoute_de_DE:
  assumes "dateLocale cfg = ''de-DE''"
  shows "generateRoute host now cfg name =
           name @ ''-'' @ show_nat (year now)
             @ padStart 2 (CHR ''0'') (show_nat (month now mod 100))
             @ padStart 2 (CHR ''0'') (show_nat (day now mod 100))"
proof -
  define dd where "dd = field ''2-digit'' (day now)"
  define mm where "mm = field ''2-digit'' (month now)"
  define yyyy where "yyyy = field ''numeric'' (year now)"
  define rest where "rest = CHR '' '' # field ''2-digit'' (hour now) @ '':'' @ field ''2-digit'' (minute now)
                              @ '':'' @ field ''2-digit'' (second now)"
  have d: "CHR ''.'' \<notin> set dd" "CHR '','' \<notin> set dd" "CHR ''.'' \<notin> set mm" "CHR '','' \<notin> set mm"
    "CHR ''.'' \<notin> set yyyy" "CHR '','' \<notin> set yyyy"
    using digits_no_sep [OF field_digits] by (simp_all add: dd_def mm_def yyyy_def)
  have fd: "formatDate host now (Some (dateLocale cfg)) = (dd @ CHR ''.'' # mm @ CHR ''.'' # yyyy) @ CHR '','' # rest"
    using assms by (simp add: formatDate_def toLocaleString_def DATE_OPTIONS_def dd_def mm_def yyyy_def rest_def)
  have "CHR '','' \<notin> set (dd @ CHR ''.'' # mm @ CHR ''.'' # yyyy)" using d by simp
  then have part: "hd (split (CHR '','') (formatDate host now (Some (dateLocale cfg)))) = dd @ CHR ''.'' # mm @ CHR ''.'' # yyyy"
    unfolding fd using split_at_sep [of "CHR '',''" "dd @ CHR ''.'' # mm @ CHR ''.'' # yyyy" rest] by simp
  have pieces: "split (CHR ''.'') (dd @ CHR ''.'' # mm @ CHR ''.'' # yyyy) = [dd, mm, yyyy]"
    using d by (simp add: split_at_sep split_no_sep)
  have "generateRoute host now cfg name = name @ ''-'' @ yyyy @ mm @ dd"
    by (simp add: generateRoute_def Let_def part pieces element_def template_def)
  then show ?thesis
    by (simp add: dd_def mm_def yyyy_def field_def)
qed

lemma genLog_format_token:
  "has_format_token msg \<Longrightarrow>
   genLog host now this lvl msg ob = genLog host now this lvl msg JUndefined"
proof -
  assume "has_format_token msg"
  then have "record_of lvl msg ob = record_of lvl msg JUndefined"
    by (simp add: record_of_def)
  then show ?thesis by (simp only: genLog_winston)
qed

text \<open>The route for the default locale, late and early on the same day.\<close>

lemma generateRoute_de_DE_example:
  "generateRoute host late_evening DEFAULT_CONFIG ''sensor'' = ''sensor-20250526''"
  "generateRoute host early_morning DEFAULT_CONFIG ''sensor'' = ''sensor-20250526''"
  by code_simp+

subsection \<open>Filtering by severity\<close>

text \<open>
  C1. The seven levels exception, error, warn, info, http, trace, debug have the ranks
  0 to 6 in this order. On a logger whose sinks are built from its configuration, with
  a threshold that is one of the seven, a call of \<open>genLog\<close> at one of the seven levels,
  with a payload that \<open>JSON.stringify\<close> accepts, writes at least one line if and only
  if the rank of the level is at most the rank of the threshold.
\<close>

theorem log_emits_iff_rank:
  assumes "l \<in> set level_names" and "t \<in> set level_names"
    and "ready this" and "logTracelevel (config this) = t" and "\<not> cyclic ob"
  shows "level_names = [''exception'', ''error'', ''warn'', ''info'', ''http'', ''trace'', ''debug'']
       \<and> map rank level_names = [Some 0, Some 1, Some 2, Some 3, Some 4, Some 5, Some 6]
       \<and> (\<exists>k n. rank l = Some k \<and> rank t = Some n \<and>
             ((\<exists>ws. genLog host now this l msg ob = Inr ws \<and> ws \<noteq> []) \<longleftrightarrow> k \<le> n))"
proof -
  obtain k where k: "rank l = Some k" using assms(1) rank_known by blast
  obtain n where n: "rank t = Some n" using assms(2) rank_known by blast
  have nc: "\<not> cyclic (obj (record_of l msg ob))"
    using assms(5) by (simp add: record_of_def)
  obtain line where line: "createLogString host now (record_of l msg ob) = Inr line"
    using createLogString_total [OF nc] by blast
  have w: "w_levels (logger this) = levels LOGGING_LEVELS" "w_level (logger this) = t"
    "w_transports (logger this) \<noteq> []"
    using assms(3,4) by (simp_all add: ready_def createWinstonLogger_def Let_def)
  have "genLog host now this l msg ob =
          Inr (if enabled (levels LOGGING_LEVELS) t l
               then map (\<lambda>tr. write_to now tr l line) (w_transports (logger this)) else [])"
    using line w by (simp add: genLog_winston deliver_Inr record_of_def)
  then have "(\<exists>ws. genLog host now this l msg ob = Inr ws \<and> ws \<noteq> []) \<longleftrightarrow> k \<le> n"
    using w(3) enabled_rank [OF k n] by auto
  then show ?thesis using k n level_names_eq rank_table by blast
qed

theorem log_emits_iff_rank_witness:
  "''debug'' \<in> set level_names \<and> ''exception'' \<in> set level_names \<and> ''error'' \<in> set level_names
   \<and> ready error_only \<and> logTracelevel (config error_only) = ''error'' \<and> \<not> cyclic JUndefined
   \<and> \<not> (\<exists>ws. genLog plain_host next_day error_only ''debug'' ''not written'' JUndefined = Inr ws \<and> ws \<noteq> [])
   \<and> (\<exists>ws. genLog plain_host next_day error_only ''exception'' ''written'' JUndefined = Inr ws \<and> ws \<noteq> [])"
proof -
  have d: "''debug'' \<in> set level_names" and x: "''exception'' \<in> set level_names"
    and e: "''error'' \<in> set level_names"
    by (simp_all add: level_names_eq)
  have r: "ready error_only" by (simp add: error_only_def ready_updateConfig)
  have c: "logTracelevel (config error_only) = ''error''"
    by (simp add: error_only_def updateConfig_def spread_def Let_def)
  have n: "\<not> cyclic JUndefined" by simp
  have rk: "rank ''debug'' = Some 6" "rank ''exception'' = Some 0" "rank ''error'' = Some 1"
    by (simp_all add: rank_def LOGGING_LEVELS_def)
  show ?thesis
    using d x e r c n rk
      log_emits_iff_rank [OF d e r c n, of plain_host next_day "''not written''"]
      log_emits_iff_rank [OF x e r c n, of plain_host next_day "''written''"]
    by simp
qed

subsection \<open>The rendered line\<close>

text \<open>What \<open>createLogString\<close> makes of a record at one of the seven levels: a label of 9
  characters, and the payload's text only when \<open>info.obj\<close> is truthy.\<close>

lemma createLogString_shape:
  assumes "level i \<in> set level_names"
  shows "\<exists>label. label = replicate (9 - length (level i)) (CHR '' '') @ toUpperCase (level i)
           \<and> length label = 9
           \<and> (\<forall>s. truthy (obj i) \<and> JSON_stringify (obj i) = Inr s \<longrightarrow>
                 createLogString host now i =
                   Inr (formatDate host now None @ '' | '' @ label @ '' | '' @ message i
                          @ '' | '' @ template s))
           \<and> (\<not> truthy (obj i) \<longrightarrow>
                 createLogString host now i =
                   Inr (formatDate host now None @ '' | '' @ label @ '' | '' @ message i @ '' |''))"
proof -
  have len: "length (level i) \<le> 9"
    using assms by (auto simp add: level_names_eq)
  have lab: "padStart 9 (CHR '' '') (toUpperCase (level i))
               = replicate (9 - length (level i)) (CHR '' '') @ toUpperCase (level i)"
    by (simp add: padStart_def toUpperCase_def)
  have "length (padStart 9 (CHR '' '') (toUpperCase (level i))) = 9"
    using len by (simp add: padStart_def toUpperCase_def)
  then show ?thesis
    using lab createLogString_no_payload [of i host now]
    by (auto simp add: createLogString_payload)
qed




subsection \<open>The route and the file names\<close>

text \<open>
  C3. The route is meant to be the logical name, a hyphen and the date as YYYYMMDD for
  every locale. \<open>_generateRoute\<close> cuts the date part at dots and takes the pieces as
  day, month, year, which is the layout of \<open>de-DE\<close> only. For \<open>en-US\<close> the date part
  \<open>05/26/2025\<close> has no dot: it is bound to the day as a whole, month and year are
  \<open>undefined\<close>, and the route of \<open>sensor\<close> on 26 May 2025 is
  \<open>sensor-undefinedundefined05/26/2025\<close>.
\<close>

theorem generateRoute_en_US:
  "generateRoute host late_evening (DEFAULT_CONFIG\<lparr>dateLocale := ''en-US''\<rparr>) ''sensor''
     = ''sensor-undefinedundefined05/26/2025''"
  by code_simp

text \<open>
  C4. A rotating file name is meant to carry one date. The route already ends in the
  day the logger was created, and \<open>_createWinstonLogger\<close> appends \<open>-%DATE%\<close> to it, which
  the rotating sink replaces by the day of the write: the logger \<open>rotate-test\<close> of
  \<open>test/simple-filename-test.js\<close>, created on 26 May 2025, writes on 27 May to
  \<open>rotate-test-20250526-2025-05-27.log\<close>, a name the test's own pattern for a double
  date matches.
\<close>

theorem rotating_file_has_two_dates:
  "info host next_day
     (new_AppLogger host late_evening ''rotate-test''
        (no_config\<lparr>p_fileRotation := Some True, p_logPath := Some ''./test-logs-simple/''\<rparr>))
     ''Test message with rotation'' JUndefined
   = Inr [FileWrite ''./test-logs-simple/'' ''rotate-test-20250526-2025-05-27.log''
            ''27.05.2025, 09:00:00 |      INFO | Test message with rotation |'',
          ConsoleWrite (Some ''green'')
            ''27.05.2025, 09:00:00 |      INFO | Test message with rotation |'']
   \<and> doubleDate ''rotate-test-20250526-2025-05-27.log''"
  by code_simp

subsection \<open>After \<open>close()\<close>\<close>

text \<open>
  C5, as the code has it. The class keeps no closed state and no operation fails with
  an error of its own (the only exception a log call can end with is the one
  \<open>JSON.stringify\<close> throws). After \<open>close()\<close>, \<open>updateConfig\<close> does what it does on an
  open logger: the same merged configuration, the same route, the sinks built anew, so
  that later log calls are written again. Until then a log call writes no line, and it
  ends as it would on the open logger: resolved, or rejected by the payload.
\<close>

theorem close_keeps_no_state:
  "updateConfig (close this) p = updateConfig this p
   \<and> ready (updateConfig (close this) p)
   \<and> genLog host now (close this) lvl msg ob =
       (case genLog host now this lvl msg ob of Inl e \<Rightarrow> Inl e | Inr ws \<Rightarrow> Inr [])"
proof -
  have a: "updateConfig (close this) p = updateConfig this p"
    by (simp add: updateConfig_def close_def Let_def)
  have b: "ready (updateConfig (close this) p)" by (rule ready_updateConfig)
  have c: "genLog host now (close this) lvl msg ob =
       (case genLog host now this lvl msg ob of Inl e \<Rightarrow> Inl e | Inr ws \<Rightarrow> Inr [])"
  proof (cases "createLogString host now (record_of lvl msg ob)")
    case (Inl e)
    then show ?thesis by (simp add: genLog_winston)
  next
    case (Inr line)
    then show ?thesis by (simp add: genLog_winston deliver_Inr close_def winston_close_def)
  qed
  show ?thesis using a b c by blast
qed

text \<open>
  C5 as stated fails: on a logger that was closed and then reconfigured with an empty
  update, \<open>info\<close> writes its line to the file and to the console; on the closed logger
  itself \<open>info\<close> resolves without writing and without an error.
\<close>

theorem operations_after_close_counterexample:
  "info plain_host next_day (updateConfig (close service) no_config) ''after close'' JUndefined
     = Inr [FileWrite ''./logs/'' ''svc-20250526.log''
              ''27.05.2025, 09:00:00 |      INFO | after close |'',
            ConsoleWrite (Some ''green'') ''27.05.2025, 09:00:00 |      INFO | after close |'']
   \<and> info plain_host next_day (close service) ''after close'' JUndefined = Inr []"
  by code_simp

subsection \<open>Payloads that have no JSON text\<close>

text \<open>
  C6, as the code has it. With a message that holds no format token of the engine: a
  payload on which \<open>JSON.stringify\<close> throws (an object that reaches itself) makes the
  call of \<open>genLog\<close> end with that \<open>TypeError\<close>, at every level and threshold, and
  nothing is written. A truthy payload for which \<open>JSON.stringify\<close>
  returns \<open>undefined\<close> (a function) makes no call fail: every sink the level is enabled
  for gets the line with the text \<open>undefined\<close> in the place of the payload. A log call
  assigns no field of the logger.
\<close>

theorem unserializable_payload:
  "(cyclic ob \<and> \<not> has_format_token msg \<longrightarrow>
      genLog host now this lvl msg ob = Inl (TypeError ''Converting circular structure to JSON''))
   \<and> (truthy ob \<and> JSON_stringify ob = Inr None \<and> \<not> has_format_token msg \<longrightarrow>
      genLog host now this lvl msg ob =
        Inr (if enabled (w_levels (logger this)) (w_level (logger this)) lvl
             then map (\<lambda>tr. write_to now tr lvl
                         (formatDate host now None @ '' | '' @ padStart 9 (CHR '' '') (toUpperCase lvl)
                            @ '' | '' @ msg @ '' | undefined''))
                    (w_transports (logger this))
             else []))
   \<and> perform host this (now, GenLog lvl msg ob) = this"
proof -
  have a: "genLog host now this lvl msg ob = Inl (TypeError ''Converting circular structure to JSON'')"
    if "cyclic ob" and "\<not> has_format_token msg"
  proof -
    have "cyclic (obj (record_of lvl msg ob))"
      using that by (simp add: record_of_def cyclic_truthy)
    then show ?thesis by (simp add: genLog_winston createLogString_throws)
  qed
  have b: "genLog host now this lvl msg ob =
        Inr (if enabled (w_levels (logger this)) (w_level (logger this)) lvl
             then map (\<lambda>tr. write_to now tr lvl
                         (formatDate host now None @ '' | '' @ padStart 9 (CHR '' '') (toUpperCase lvl)
                            @ '' | '' @ msg @ '' | undefined''))
                    (w_transports (logger this))
             else [])"
    if "truthy ob" and "JSON_stringify ob = Inr None" and "\<not> has_format_token msg"
  proof -
    have rec: "record_of lvl msg ob = \<lparr>level = lvl, message = msg, obj = ob\<rparr>"
      using that(1,3) by (simp add: record_of_def)
    have "createLogString host now (record_of lvl msg ob) =
            Inr (formatDate host now None @ '' | '' @ padStart 9 (CHR '' '') (toUpperCase lvl)
                   @ '' | '' @ msg @ '' | undefined'')"
      using that(1,2) by (simp add: rec createLogString_payload template_def)
    then show ?thesis by (simp add: genLog_winston deliver_Inr rec)
  qed
  show ?thesis using a b by simp
qed

theorem unserializable_payload_witness:
  "cyclic (JObj [(''self'', JCyclic)]) \<and> \<not> has_format_token ''state''
   \<and> genLog plain_host afternoon service ''debug'' ''state'' (JObj [(''self'', JCyclic)])
       = Inl (TypeError ''Converting circular structure to JSON'')
   \<and> truthy JFunction \<and> JSON_stringify JFunction = Inr None \<and> \<not> has_format_token ''handler''
   \<and> genLog plain_host afternoon service ''error'' ''handler'' JFunction
       = Inr [FileWrite ''./logs/'' ''svc-20250526.log''
                ''26.05.2025, 14:30:15 |     ERROR | handler | undefined'',
              ConsoleWrite (Some ''red'') ''26.05.2025, 14:30:15 |     ERROR | handler | undefined'']"
proof -
  have c: "cyclic (JObj [(''self'', JCyclic)])" by simp
  have k: "\<not> has_format_token ''state''" "\<not> has_format_token ''handler''" by simp_all
  have t: "truthy JFunction" by simp
  have j: "JSON_stringify JFunction = Inr None" by (simp add: JSON_stringify_def)
  have ev: "Inr (if enabled (w_levels (logger service)) (w_level (logger service)) ''error''
             then map (\<lambda>tr. write_to afternoon tr ''error''
                         (formatDate plain_host afternoon None @ '' | '' @ padStart 9 (CHR '' '') (toUpperCase ''error'')
                            @ '' | '' @ ''handler'' @ '' | undefined''))
                    (w_transports (logger service))
             else [])
       = (Inr [FileWrite ''./logs/'' ''svc-20250526.log''
                ''26.05.2025, 14:30:15 |     ERROR | handler | undefined'',
              ConsoleWrite (Some ''red'') ''26.05.2025, 14:30:15 |     ERROR | handler | undefined'']
           :: js_error + sink_write list)"
    by code_simp
  show ?thesis
    using c k t j ev
      unserializable_payload [where ob = "JObj [(''self'', JCyclic)]" and host = plain_host
        and now = afternoon and this = service and lvl = "''debug''" and msg = "''state''"]
      unserializable_payload [where ob = JFunction and host = plain_host
        and now = afternoon and this = service and lvl = "''error''" and msg = "''handler''"]
    by simp
qed

text \<open>
  C6 as stated fails: a function has no JSON text, yet \<open>warn\<close> with a function as
  payload resolves, and the line it writes ends in \<open>undefined\<close>.
\<close>

theorem function_payload_counterexample:
  "JSON_stringify JFunction = Inr None
   \<and> warn plain_host afternoon service ''handler'' JFunction
     = Inr [FileWrite ''./logs/'' ''svc-20250526.log''
              ''26.05.2025, 14:30:15 |      WARN | handler | undefined'',
            ConsoleWrite (Some ''yellow'') ''26.05.2025, 14:30:15 |      WARN | handler | undefined'']"
  by code_simp

subsection \<open>The timestamp\<close>

text \<open>
  C7. The timestamp of a line is meant to follow the configured \<open>dateLocale\<close>.
  \<open>createLogString\<close> calls \<open>formatDate()\<close> without the locale, so the default \<open>de-DE\<close>
  is used whatever the configuration says: a logger configured with \<open>en-US\<close> stamps its
  line \<open>26.05.2025, 14:30:15\<close>, while \<open>formatDate\<close> with that locale (as
  \<open>_generateRoute\<close> calls it) starts with \<open>05/26/2025\<close>.
\<close>

theorem timestamp_ignores_dateLocale:
  "info host afternoon
     (new_AppLogger host afternoon ''iot-gateway'' (no_config\<lparr>p_dateLocale := Some ''en-US''\<rparr>))
     ''API request received'' JUndefined
   = Inr [FileWrite ''./logs/'' ''iot-gateway-undefinedundefined05/26/2025.log''
            ''26.05.2025, 14:30:15 |      INFO | API request received |'',
          ConsoleWrite (Some ''green'')
            ''26.05.2025, 14:30:15 |      INFO | API request received |'']
   \<and> take 10 (formatDate host afternoon (Some ''en-US'')) = ''05/26/2025''"
  by code_simp

subsection \<open>The route over the life of a logger\<close>

text \<open>
  C8. Whatever calls are made on a logger, at whatever instants, its route stays the
  one it had: for a logger made by the constructor, the route derived from the
  instant of construction. In particular \<open>updateConfig\<close> leaves it as it is.
\<close>

theorem route_fixed:
  "route (run host this calls) = route this
   \<and> route (run host (new_AppLogger host created name cfg) calls)
       = generateRoute host created (spread DEFAULT_CONFIG cfg) name
   \<and> route (updateConfig this newConfig) = route this"
  by (simp add: run_def route_foldl new_AppLogger_def updateConfig_def Let_def)

subsection \<open>Configuration snapshots\<close>

text \<open>
  C9. With the configuration object of a logger in the store, two calls of
  \<open>getConfig()\<close> with nothing in between return two new objects, different from each
  other and from the logger's own, each with the fields of the logger's configuration.
  Whatever is assigned to the first snapshot, the logger's object and the second
  snapshot keep their fields, and a later \<open>getConfig()\<close> returns the same fields
  again.
\<close>

theorem getConfig_snapshot:
  assumes "objects st this_config = Some c" and "this_config < fresh st"
  shows "\<exists>s1 st1 s2 st2.
           getConfig_ref st this_config = Some (s1, st1)
         \<and> getConfig_ref st1 this_config = Some (s2, st2)
         \<and> objects st2 s1 = Some c \<and> objects st2 s2 = Some c
         \<and> s1 \<noteq> this_config \<and> s2 \<noteq> this_config \<and> s1 \<noteq> s2
         \<and> (\<forall>f. objects (assign st2 s1 f) this_config = Some c
                \<and> objects (assign st2 s1 f) s2 = Some c
                \<and> (\<exists>s3 st3. getConfig_ref (assign st2 s1 f) this_config = Some (s3, st3)
                             \<and> objects st3 s3 = Some c))"
  using assms
  by (auto simp add: getConfig_ref_def new_object_def assign_def)

theorem getConfig_snapshot_witness:
  "objects one_object 0 = Some DEFAULT_CONFIG \<and> 0 < fresh one_object
   \<and> (\<exists>s1 st1 s2 st2.
         getConfig_ref one_object 0 = Some (s1, st1)
       \<and> getConfig_ref st1 0 = Some (s2, st2)
       \<and> objects st2 s1 = Some DEFAULT_CONFIG \<and> objects st2 s2 = Some DEFAULT_CONFIG
       \<and> s1 \<noteq> 0 \<and> s2 \<noteq> 0 \<and> s1 \<noteq> s2
       \<and> objects (assign st2 s1 (\<lambda>c. c\<lparr>logTracelevel := ''debug''\<rparr>)) 0 = Some DEFAULT_CONFIG
       \<and> objects (assign st2 s1 (\<lambda>c. c\<lparr>logTracelevel := ''debug''\<rparr>)) s2 = Some DEFAULT_CONFIG)"
proof -
  have a: "objects one_object 0 = Some DEFAULT_CONFIG" by (simp add: one_object_def)
  have b: "0 < fresh one_object" by (simp add: one_object_def)
  show ?thesis
    using a b getConfig_snapshot [OF a b] by blast
qed

subsection \<open>Falsy payloads\<close>



end
